theory Spec2Isabelle
  imports Complex_Main "HOL-Library.Sublist"
begin

section \<open>Python values and exceptions\<close>

text \<open>
  The session record stores untyped Python objects: the evaluation dictionaries appended
  to \<open>history\<close>, the pending question and the misconception label. They are modelled by
  one datatype of Python values. A dictionary is an association list in insertion order
  whose keys are distinct; a lookup reads the binding of the key.

  A Python \<open>int\<close> is an unbounded integer. A Python \<open>float\<close> is an IEEE binary64
  value: a finite double is written as the real number it represents (only the
  representable reals occur, and \<open>Finite 0\<close> is the literal \<open>0.0\<close>), beside the
  negative zero, the two infinities and the NaNs.
\<close>

datatype pyfloat = Finite real | NegZero | PosInf | NegInf | NaN

datatype pyval =
    PNone
  | PBool bool
  | PInt int
  | PFloat pyfloat
  | PStr string
  | PList "pyval list"
  | PDict "(string \<times> pyval) list"

text \<open>
  The exception classes the modelled code can raise. The message texts are not modelled,
  a \<open>KeyError\<close> carries its key; \<open>EngineError\<close> stands for any other exception
  raised by the engine functions that \<open>app.py\<close> imports.
\<close>

datatype py_error =
    KeyError string
  | TypeError
  | AttributeError
  | ValueError
  | ZeroDivisionError
  | OverflowError
  | EngineError string

text \<open>Truth value of an object, as \<open>not x\<close> and \<open>if x\<close> test it.\<close>

fun truthy :: "pyval \<Rightarrow> bool" where
  "truthy PNone = False"
| "truthy (PBool b) = b"
| "truthy (PInt i) = (i \<noteq> 0)"
| "truthy (PFloat (Finite x)) = (x \<noteq> 0)"
| "truthy (PFloat NegZero) = False"
| "truthy (PFloat PosInf) = True"
| "truthy (PFloat NegInf) = True"
| "truthy (PFloat NaN) = True"
| "truthy (PStr s) = (s \<noteq> [])"
| "truthy (PList xs) = (xs \<noteq> [])"
| "truthy (PDict d) = (d \<noteq> [])"

text \<open>
  \<open>i[k]\<close> with a string key: a dictionary gives the value or raises \<open>KeyError\<close>;
  every other value raises \<open>TypeError\<close> (not subscriptable, or not indexable by a
  string).
\<close>

fun getitem :: "pyval \<Rightarrow> string \<Rightarrow> py_error + pyval" where
  "getitem (PDict d) k = (case map_of d k of None \<Rightarrow> Inl (KeyError k) | Some v \<Rightarrow> Inr v)"
| "getitem PNone k = Inl TypeError"
| "getitem (PBool b) k = Inl TypeError"
| "getitem (PInt i) k = Inl TypeError"
| "getitem (PFloat x) k = Inl TypeError"
| "getitem (PStr s) k = Inl TypeError"
| "getitem (PList xs) k = Inl TypeError"

text \<open>
  The values that \<open>+\<close> accepts beside a number: integers, floats, and booleans as the
  integers 0 and 1.
\<close>

datatype number = NInt int | NFloat pyfloat

fun as_number :: "pyval \<Rightarrow> number option" where
  "as_number (PInt i) = Some (NInt i)"
| "as_number (PFloat x) = Some (NFloat x)"
| "as_number (PBool b) = Some (NInt (if b then 1 else 0))"
| "as_number PNone = None"
| "as_number (PStr s) = None"
| "as_number (PList xs) = None"
| "as_number (PDict d) = None"

text \<open>
  The float arithmetic of the Python runtime is not fixed by the repository: its rounding,
  and how \<open>sum\<close> accumulates floats, belong to the interpreter. The operations the
  modelled code reaches are parameters, collected in one record. \<open>None\<close> is an
  \<open>OverflowError\<close>, the only exception these operations raise on a non-zero divisor.
  \<^item> \<open>float_total ns\<close>: the running total that \<open>sum\<close> holds after adding the numbers
    \<open>ns\<close>, at least one of them a float, to 0 from the left;
  \<^item> \<open>int_truediv a b\<close>: \<open>a / b\<close> on two integers, \<open>b\<close> not 0;
  \<^item> \<open>float_truediv x n\<close>: \<open>x / n\<close> on a float and an integer, \<open>n\<close> not 0;
  \<^item> \<open>float_of_int i\<close>: the conversion of an integer to a float.
\<close>

record runtime =
  float_total :: "number list \<Rightarrow> pyfloat option"
  int_truediv :: "int \<Rightarrow> int \<Rightarrow> pyfloat option"
  float_truediv :: "pyfloat \<Rightarrow> int \<Rightarrow> pyfloat option"
  float_of_int :: "int \<Rightarrow> pyfloat option"

text \<open>The integers of a list of numbers, when all of them are integers.\<close>

fun all_ints :: "number list \<Rightarrow> int list option" where
  "all_ints [] = Some []"
| "all_ints (NInt i # ns) = (case all_ints ns of None \<Rightarrow> None | Some js \<Rightarrow> Some (i # js))"
| "all_ints (NFloat x # ns) = None"

text \<open>
  The running total of \<open>sum\<close> after the numbers \<open>ns\<close>: integers add exactly, and with
  a float among them the total is the runtime's.
\<close>

definition running_total :: "runtime \<Rightarrow> number list \<Rightarrow> number option" where
  "running_total rt ns =
     (case all_ints ns of
        Some js \<Rightarrow> Some (NInt (sum_list js))
      | None \<Rightarrow> map_option NFloat (float_total rt ns))"

text \<open>
  \<open>sum(i[k] for i in xs)\<close>: the generator is consumed from the left, the running total
  starts at the integer 0, and the first failing subscript or addition raises. \<open>seen\<close>
  are the numbers added so far and \<open>tot\<close> is their total.
\<close>

fun sum_key ::
  "runtime \<Rightarrow> string \<Rightarrow> pyval list \<Rightarrow> number list \<Rightarrow> number \<Rightarrow> py_error + number" where
  "sum_key rt k [] seen tot = Inr tot"
| "sum_key rt k (i # rest) seen tot =
     (case getitem i k of
        Inl e \<Rightarrow> Inl e
      | Inr v \<Rightarrow>
          (case as_number v of
             None \<Rightarrow> Inl TypeError
           | Some x \<Rightarrow>
               (case running_total rt (seen @ [x]) of
                  None \<Rightarrow> Inl OverflowError
                | Some tot' \<Rightarrow> sum_key rt k rest (seen @ [x]) tot')))"

text \<open>
  \<open>total / len(xs)\<close>: true division of the total by a length. A zero divisor raises
  \<open>ZeroDivisionError\<close>; otherwise the quotient is the runtime's, a float, or an
  \<open>OverflowError\<close>.
\<close>

definition truediv :: "runtime \<Rightarrow> number \<Rightarrow> nat \<Rightarrow> py_error + pyfloat" where
  "truediv rt tot n =
     (if n = 0 then Inl ZeroDivisionError
      else
        (case tot of
           NInt a \<Rightarrow>
             (case int_truediv rt a (int n) of None \<Rightarrow> Inl OverflowError | Some q \<Rightarrow> Inr q)
         | NFloat x \<Rightarrow>
             (case float_truediv rt x (int n) of None \<Rightarrow> Inl OverflowError | Some q \<Rightarrow> Inr q)))"

definition bind_err :: "py_error + 'a \<Rightarrow> ('a \<Rightarrow> py_error + 'b) \<Rightarrow> py_error + 'b" where
  "bind_err r f = (case r of Inl e \<Rightarrow> Inl e | Inr v \<Rightarrow> f v)"

section \<open>The session record (models/session.py)\<close>

type_synonym datetime = int

definition MAX_QUESTIONS :: int where
  "MAX_QUESTIONS = 15"

definition MIN_QUESTIONS :: int where
  "MIN_QUESTIONS = 5"

record SessionState =
  max_questions :: int
  bloom_level :: int
  difficulty :: int
  question_number :: int
  current_question :: pyval
  finished :: bool
  history :: "pyval list"
  last_misconception :: pyval
  created_at :: datetime
  last_activity :: datetime

text \<open>
  \<open>reset\<close> assigns every attribute but \<open>max_questions\<close>. It reads the clock twice;
  the two readings are the arguments \<open>t_created\<close> and \<open>t_activity\<close>.
\<close>

definition reset :: "SessionState \<Rightarrow> datetime \<Rightarrow> datetime \<Rightarrow> SessionState" where
  "reset self t_created t_activity =
     self\<lparr>bloom_level := 1,
          difficulty := 1,
          question_number := 1,
          current_question := PNone,
          finished := False,
          history := [],
          last_misconception := PNone,
          created_at := t_created,
          last_activity := t_activity\<rparr>"

text \<open>
  \<open>__init__\<close>: the range check, then \<open>max_questions\<close>, then \<open>reset\<close>. Before
  \<open>reset\<close> the object has no other attribute; the record needs a value in each field,
  and \<open>reset\<close> overwrites every one of them.
\<close>

definition new_object :: "int \<Rightarrow> SessionState" where
  "new_object mq =
     \<lparr>max_questions = mq, bloom_level = 0, difficulty = 0, question_number = 0,
      current_question = PNone, finished = False, history = [],
      last_misconception = PNone, created_at = 0, last_activity = 0\<rparr>"

definition SessionState_init :: "int \<Rightarrow> datetime \<Rightarrow> datetime \<Rightarrow> py_error + SessionState" where
  "SessionState_init mq t_created t_activity =
     (if \<not> (MIN_QUESTIONS \<le> mq \<and> mq \<le> MAX_QUESTIONS) then Inl ValueError
      else Inr (reset (new_object mq) t_created t_activity))"

text \<open>\<open>record_evaluation\<close>: append to the history, then read the clock.\<close>

definition record_evaluation :: "SessionState \<Rightarrow> pyval \<Rightarrow> datetime \<Rightarrow> SessionState" where
  "record_evaluation self e now =
     self\<lparr>history := history self @ [e], last_activity := now\<rparr>"

record Summary =
  final_score :: pyfloat
  average_accuracy :: pyfloat
  average_explanation :: pyfloat
  responses :: "pyval list"

text \<open>
  \<open>summary\<close> returns the session as it leaves it together with the dictionary it
  builds, or the exception that a malformed history record or the arithmetic raises.
  The three averages are computed in the order of the source: accuracy, explanation,
  final. The zeros of the first branch are the literals \<open>0.0\<close>.
\<close>

definition summary :: "runtime \<Rightarrow> SessionState \<Rightarrow> SessionState \<times> (py_error + Summary)" where
  "summary rt self =
     (self,
      if history self = [] then
        Inr \<lparr>final_score = Finite 0, average_accuracy = Finite 0,
             average_explanation = Finite 0, responses = []\<rparr>
      else
        bind_err (sum_key rt ''accuracy'' (history self) [] (NInt 0)) (\<lambda>a.
        bind_err (truediv rt a (length (history self))) (\<lambda>acc.
        bind_err (sum_key rt ''explanation_score'' (history self) [] (NInt 0)) (\<lambda>x.
        bind_err (truediv rt x (length (history self))) (\<lambda>exp.
        bind_err (sum_key rt ''final_score'' (history self) [] (NInt 0)) (\<lambda>f.
        bind_err (truediv rt f (length (history self))) (\<lambda>final.
          Inr \<lparr>final_score = final,
               average_accuracy = acc,
               average_explanation = exp,
               responses = history self\<rparr>)))))))"

section \<open>The HTTP handlers (app.py)\<close>

text \<open>
  An exception in flight is an \<open>HTTPException\<close> with its status code and detail, or
  any other exception. A handler's \<open>except Exception as e\<close> clause builds the detail
  from a fixed prefix and \<open>str(e)\<close>; the model keeps the prefix and the exception.
\<close>

datatype detail = Detail string | DetailOf string py_error

datatype exn = HTTPException nat detail | Error py_error

text \<open>
  The two \<open>except\<close> clauses that close \<open>start\<close> and \<open>answer\<close>: an
  \<open>HTTPException\<close> is raised again as it is, every other exception becomes a 500.
\<close>

fun except_clauses :: "string \<Rightarrow> exn \<Rightarrow> exn" where
  "except_clauses pre (HTTPException code d) = HTTPException code d"
| "except_clauses pre (Error e) = HTTPException 500 (DetailOf pre e)"

text \<open>
  The process-wide registry \<open>SESSIONS\<close>, from session id to session object. Each
  object is reachable through one id only, so the registry holds the object's state.
  The handlers are modelled one call at a time; the thread that removes expired sessions
  is not part of the model.
\<close>

type_synonym sessions = "string \<rightharpoonup> SessionState"

text \<open>
  \<open>engine/adaptive_engine.py\<close> is not among the sources. Its two functions are
  parameters of the handlers: each receives the session object, may mutate it, and
  returns a value or raises; the session it leaves behind is part of the result in both
  cases.
\<close>

type_synonym score_response_fn = "SessionState \<Rightarrow> pyval \<Rightarrow> SessionState \<times> (exn + pyval)"

type_synonym next_question_fn = "SessionState \<Rightarrow> SessionState \<times> (exn + pyval)"

text \<open>
  A request that reached \<open>answer\<close>: \<open>pydantic\<close> has validated it before the handler
  runs, and the handler reads nothing but these three fields.
\<close>

record AnswerRequest =
  student_answer :: string
  explanation :: string
  session_id :: string

definition response_data :: "AnswerRequest \<Rightarrow> pyval" where
  "response_data request =
     PDict [(''student_answer'', PStr (student_answer request)),
            (''explanation'', PStr (explanation request))]"

text \<open>\<open>d.get(k, default)\<close>: only a dictionary has the method.\<close>

fun dict_get :: "pyval \<Rightarrow> string \<Rightarrow> pyval \<Rightarrow> py_error + pyval" where
  "dict_get (PDict d) k dflt = Inr (case map_of d k of None \<Rightarrow> dflt | Some v \<Rightarrow> v)"
| "dict_get PNone k dflt = Inl AttributeError"
| "dict_get (PBool b) k dflt = Inl AttributeError"
| "dict_get (PInt i) k dflt = Inl AttributeError"
| "dict_get (PFloat x) k dflt = Inl AttributeError"
| "dict_get (PStr s) k dflt = Inl AttributeError"
| "dict_get (PList xs) k dflt = Inl AttributeError"

text \<open>
  The format specification \<open>:.2f\<close> of an f-string: a float and a boolean format, an
  integer is converted to a float first (which raises \<open>OverflowError\<close> on an integer
  beyond the range of the floats), a string raises \<open>ValueError\<close>, every other value
  \<open>TypeError\<close>. The text produced only goes to the log and is not kept.
\<close>

fun format_2f :: "runtime \<Rightarrow> pyval \<Rightarrow> py_error + unit" where
  "format_2f rt (PFloat x) = Inr ()"
| "format_2f rt (PInt i) =
     (case float_of_int rt i of None \<Rightarrow> Inl OverflowError | Some x \<Rightarrow> Inr ())"
| "format_2f rt (PBool b) = Inr ()"
| "format_2f rt (PStr s) = Inl ValueError"
| "format_2f rt PNone = Inl TypeError"
| "format_2f rt (PList xs) = Inl TypeError"
| "format_2f rt (PDict d) = Inl TypeError"

text \<open>The log line after scoring: \<open>evaluation.get('final_score', 0)\<close> formatted.\<close>

definition log_scored :: "runtime \<Rightarrow> pyval \<Rightarrow> py_error + unit" where
  "log_scored rt evaluation =
     bind_err (dict_get evaluation ''final_score'' (PInt 0)) (format_2f rt)"

datatype answer_response =
    Finished pyval Summary
  | NextQuestion pyval pyval

text \<open>
  The body of the \<open>try\<close> block of \<open>answer\<close>. \<open>rt\<close> is the runtime's float
  arithmetic, \<open>now\<close> is the clock reading of the handler's own \<open>datetime.now()\<close>. The result is the registry after the call and the
  response or the exception raised inside the block. A session object found in the
  registry is always true under \<open>not\<close> (the class defines neither \<open>__bool__\<close> nor
  \<open>__len__\<close>), so the 404 is raised exactly when the id is not registered.
\<close>

definition answer_try ::
  "runtime \<Rightarrow> score_response_fn \<Rightarrow> next_question_fn \<Rightarrow> datetime \<Rightarrow> AnswerRequest
     \<Rightarrow> sessions \<Rightarrow> sessions \<times> (exn + answer_response)" where
  "answer_try rt score_response next_question now request SESSIONS =
     (case SESSIONS (session_id request) of
        None \<Rightarrow>
          (SESSIONS,
           Inl (HTTPException 404 (Detail ''Session not found. Please start a new assessment.'')))
      | Some session0 \<Rightarrow>
          (let session = session0\<lparr>last_activity := now\<rparr> in
           if finished session then
             (SESSIONS(session_id request \<mapsto> session),
              Inl (HTTPException 400 (Detail ''Assessment already completed'')))
           else if \<not> truthy (current_question session) then
             (SESSIONS(session_id request \<mapsto> session),
              Inl (HTTPException 400 (Detail ''No active question'')))
           else
             (case score_response session (response_data request) of
                (session1, Inl e) \<Rightarrow> (SESSIONS(session_id request \<mapsto> session1), Inl e)
              | (session1, Inr evaluation) \<Rightarrow>
                  (case log_scored rt evaluation of
                     Inl e \<Rightarrow> (SESSIONS(session_id request \<mapsto> session1), Inl (Error e))
                   | Inr u \<Rightarrow>
                       if finished session1 then
                         (case summary rt session1 of
                            (session2, Inl e) \<Rightarrow>
                              (SESSIONS(session_id request \<mapsto> session2), Inl (Error e))
                          | (session2, Inr summ) \<Rightarrow>
                              (SESSIONS(session_id request := None),
                               Inr (Finished evaluation summ)))
                       else
                         (case next_question session1 of
                            (session2, Inl e) \<Rightarrow>
                              (SESSIONS(session_id request \<mapsto> session2), Inl e)
                          | (session2, Inr next_q) \<Rightarrow>
                              (SESSIONS(session_id request \<mapsto> session2),
                               Inr (NextQuestion evaluation next_q)))))))"

definition answer ::
  "runtime \<Rightarrow> score_response_fn \<Rightarrow> next_question_fn \<Rightarrow> datetime \<Rightarrow> AnswerRequest
     \<Rightarrow> sessions \<Rightarrow> sessions \<times> (exn + answer_response)" where
  "answer rt score_response next_question now request SESSIONS =
     (case answer_try rt score_response next_question now request SESSIONS of
        (SESSIONS', Inl e) \<Rightarrow> (SESSIONS', Inl (except_clauses ''Error processing answer: '' e))
      | (SESSIONS', Inr response) \<Rightarrow> (SESSIONS', Inr response))"

text \<open>
  \<open>start\<close>: \<open>new_id\<close> is the string of the fresh \<open>uuid4\<close>, the two clock readings
  are those of the constructor, which is called with no argument and so with its default
  \<open>MAX_QUESTIONS\<close>. The session is registered before \<open>next_question\<close> runs and stays
  registered when the handler fails afterwards.
\<close>

datatype start_response = StartResponse string pyval

definition start_try ::
  "next_question_fn \<Rightarrow> string \<Rightarrow> datetime \<Rightarrow> datetime \<Rightarrow> sessions
     \<Rightarrow> sessions \<times> (exn + start_response)" where
  "start_try next_question new_id t_created t_activity SESSIONS =
     (case SessionState_init MAX_QUESTIONS t_created t_activity of
        Inl e \<Rightarrow> (SESSIONS, Inl (Error e))
      | Inr session \<Rightarrow>
          (case next_question session of
             (session1, Inl e) \<Rightarrow> (SESSIONS(new_id \<mapsto> session1), Inl e)
           | (session1, Inr question) \<Rightarrow>
               if question = PNone then
                 (SESSIONS(new_id \<mapsto> session1),
                  Inl (HTTPException 500 (Detail ''Failed to load initial question'')))
               else
                 (SESSIONS(new_id \<mapsto> session1), Inr (StartResponse new_id question))))"

definition start ::
  "next_question_fn \<Rightarrow> string \<Rightarrow> datetime \<Rightarrow> datetime \<Rightarrow> sessions
     \<Rightarrow> sessions \<times> (exn + start_response)" where
  "start next_question new_id t_created t_activity SESSIONS =
     (case start_try next_question new_id t_created t_activity SESSIONS of
        (SESSIONS', Inl e) \<Rightarrow> (SESSIONS', Inl (except_clauses ''Error starting assessment: '' e))
      | (SESSIONS', Inr response) \<Rightarrow> (SESSIONS', Inr response))"

section \<open>Concrete sessions\<close>

text \<open>
  Concrete data on which the theorems below are instantiated. The runtime of the examples
  computes exactly and never overflows; the sums and quotients of the examples (integers,
  halves and quarters) are representable, so binary64 arithmetic gives the same results
  on them.
\<close>

fun float_value :: "pyfloat \<Rightarrow> real" where
  "float_value (Finite x) = x"
| "float_value NegZero = 0"
| "float_value PosInf = 0"
| "float_value NegInf = 0"
| "float_value NaN = 0"

fun number_value :: "number \<Rightarrow> real" where
  "number_value (NInt i) = of_int i"
| "number_value (NFloat x) = float_value x"

definition example_runtime :: runtime where
  "example_runtime =
     \<lparr>float_total = (\<lambda>ns. Some (Finite (sum_list (map number_value ns)))),
      int_truediv = (\<lambda>a b. Some (Finite (of_int a / of_int b))),
      float_truediv = (\<lambda>x n. Some (Finite (float_value x / of_int n))),
      float_of_int = (\<lambda>i. Some (Finite (of_int i)))\<rparr>"

definition evaluation_record :: "int \<Rightarrow> real \<Rightarrow> real \<Rightarrow> pyval" where
  "evaluation_record a x f =
     PDict [(''accuracy'', PInt a), (''explanation_score'', PFloat (Finite x)),
            (''final_score'', PFloat (Finite f)), (''misconception'', PNone)]"

definition example_question :: pyval where
  "example_question = PDict [(''id'', PStr ''q3''), (''bloom_level'', PInt 1), (''difficulty'', PInt 2)]"

definition example_session :: SessionState where
  "example_session =
     \<lparr>max_questions = 15, bloom_level = 1, difficulty = 2, question_number = 3,
      current_question = example_question, finished = False,
      history = [evaluation_record 1 (1/2) (3/4), evaluation_record 0 (1/2) (1/4)],
      last_misconception = PNone, created_at = 100, last_activity = 200\<rparr>"

definition finished_session :: SessionState where
  "finished_session = example_session\<lparr>current_question := PNone, finished := True\<rparr>"

definition idle_session :: SessionState where
  "idle_session = example_session\<lparr>current_question := PNone\<rparr>"

definition example_request :: AnswerRequest where
  "example_request =
     \<lparr>student_answer = ''x = 1'', explanation = ''assignment binds a name'',
      session_id = ''123e4567-e89b-12d3-a456-426614174000''\<rparr>"

definition registry_of :: "SessionState \<Rightarrow> sessions" where
  "registry_of s = Map.empty(session_id example_request \<mapsto> s)"

text \<open>
  Engine functions for the examples: a judge that is unavailable and leaves the session
  alone, a scorer that records its evaluation with \<open>record_evaluation\<close> and clears the
  pending question, a selector that presents a question, and a selector whose question
  bank is unavailable.
\<close>

definition judge_down :: score_response_fn where
  "judge_down s r = (s, Inl (Error (EngineError ''judge unavailable'')))"


definition first_question :: next_question_fn where
  "first_question s =
     (s\<lparr>current_question := example_question, question_number := question_number s + 1\<rparr>,
      Inr example_question)"


section \<open>Properties of the session record\<close>

text \<open>
  The values that \<open>new_object\<close> puts into the fields which \<open>__init__\<close> has not
  assigned yet play no part: \<open>reset\<close> depends on \<open>max_questions\<close> alone.
\<close>

lemma reset_overwrites:
  fixes a b :: SessionState
  shows "max_questions a = max_questions b \<Longrightarrow> reset a t1 t2 = reset b t1 t2"
  by (cases a, cases b) (simp add: reset_def)

subsection \<open>The summary\<close>

lemma summary_value:
  "snd (summary rt s) =
     (if history s = [] then
        Inr \<lparr>final_score = Finite 0, average_accuracy = Finite 0,
             average_explanation = Finite 0, responses = []\<rparr>
      else
        bind_err (sum_key rt ''accuracy'' (history s) [] (NInt 0)) (\<lambda>a.
        bind_err (truediv rt a (length (history s))) (\<lambda>acc.
        bind_err (sum_key rt ''explanation_score'' (history s) [] (NInt 0)) (\<lambda>x.
        bind_err (truediv rt x (length (history s))) (\<lambda>exp.
        bind_err (sum_key rt ''final_score'' (history s) [] (NInt 0)) (\<lambda>f.
        bind_err (truediv rt f (length (history s))) (\<lambda>final.
          Inr \<lparr>final_score = final, average_accuracy = acc,
               average_explanation = exp, responses = history s\<rparr>)))))))"
  by (simp add: summary_def)

lemma bind_err_Inr: "bind_err r f = Inr y \<Longrightarrow> \<exists>v. r = Inr v \<and> f v = Inr y"
  by (cases r) (simp_all add: bind_err_def)

lemma bind_err_Inl:
  "bind_err r f = Inl e \<Longrightarrow> r = Inl e \<or> (\<exists>v. r = Inr v \<and> f v = Inl e)"
  by (cases r) (simp_all add: bind_err_def)

lemma sum_key_no_zero_division: "sum_key rt k xs seen tot \<noteq> Inl ZeroDivisionError"
proof (induction xs arbitrary: seen tot)
  case Nil
  then show ?case by simp
next
  case (Cons i rest)
  show ?case
  proof (cases "getitem i k")
    case (Inl e)
    then have "e \<noteq> ZeroDivisionError" by (cases i) (auto split: option.splits)
    with Inl show ?thesis by simp
  next
    case (Inr v)
    show ?thesis
    proof (cases "as_number v")
      case None
      with Inr show ?thesis by simp
    next
      case (Some x)
      show ?thesis
      proof (cases "running_total rt (seen @ [x])")
        case None
        with Inr Some show ?thesis by simp
      next
        case (Some t)
        with Inr \<open>as_number v = Some x\<close> Cons.IH show ?thesis by simp
      qed
    qed
  qed
qed

lemma truediv_zero_division: "n \<noteq> 0 \<Longrightarrow> truediv rt tot n \<noteq> Inl ZeroDivisionError"
  by (simp add: truediv_def split: number.splits option.splits)

text \<open>
  The guard on the empty history is the only place where the divisor could be zero:
  \<open>summary\<close> raises \<open>ZeroDivisionError\<close> on no session at all, whatever the runtime's
  arithmetic.
\<close>

lemma summary_no_zero_division: "snd (summary rt s) \<noteq> Inl ZeroDivisionError"
proof (cases "history s = []")
  case True
  then show ?thesis by (simp add: summary_value)
next
  case False
  then have n: "length (history s) \<noteq> 0" by simp
  show ?thesis
  proof
    assume "snd (summary rt s) = Inl ZeroDivisionError"
    with False show False
      unfolding summary_value
      using sum_key_no_zero_division truediv_zero_division [OF n]
      by (auto dest!: bind_err_Inl)
  qed
qed

text \<open>
  C2. On a session with an empty history \<open>summary\<close> returns, whatever the runtime's
  arithmetic (it raises nothing, so it does not divide by zero): the three aggregates
  are the float 0.0 and the response list is empty.
\<close>

theorem summary_empty_history:
  "history s = [] \<Longrightarrow>
   snd (summary rt s) =
     Inr \<lparr>final_score = Finite 0, average_accuracy = Finite 0,
          average_explanation = Finite 0, responses = []\<rparr>"
  by (simp add: summary_def)

theorem summary_empty_history_witness:
  "history (finished_session\<lparr>history := []\<rparr>) = [] \<and>
   snd (summary example_runtime (finished_session\<lparr>history := []\<rparr>)) =
     Inr \<lparr>final_score = Finite 0, average_accuracy = Finite 0,
          average_explanation = Finite 0, responses = []\<rparr>"
  using summary_empty_history [of "finished_session\<lparr>history := []\<rparr>" example_runtime]
  by (simp add: finished_session_def example_session_def)

text \<open>
  C10. \<open>summary\<close> leaves the session record as it found it, whether it returns or
  raises: the session after the call equals the session before it, and so does each of
  its fields.
\<close>

theorem summary_leaves_session: "fst (summary rt s) = s"
  by (simp add: summary_def)

text \<open>
  The summary of the example session under the exact runtime: the accuracies 1 and 0 sum
  to the integer 1, the explanation scores and the final scores to the float 1.0, and
  every quotient by 2 is 0.5.
\<close>

lemma example_sums:
  "sum_key example_runtime ''accuracy'' (history example_session) [] (NInt 0) = Inr (NInt 1)"
  "sum_key example_runtime ''explanation_score'' (history example_session) [] (NInt 0)
     = Inr (NFloat (Finite 1))"
  "sum_key example_runtime ''final_score'' (history example_session) [] (NInt 0)
     = Inr (NFloat (Finite 1))"
  by (simp_all add: example_session_def evaluation_record_def running_total_def
      example_runtime_def)

lemma example_quotients:
  "truediv example_runtime (NInt 1) 2 = Inr (Finite (1/2))"
  "truediv example_runtime (NFloat (Finite 1)) 2 = Inr (Finite (1/2))"
  by (simp_all add: truediv_def example_runtime_def)

lemma example_summary:
  "snd (summary example_runtime example_session) =
     Inr \<lparr>final_score = Finite (1/2), average_accuracy = Finite (1/2),
          average_explanation = Finite (1/2),
          responses = [evaluation_record 1 (1/2) (3/4), evaluation_record 0 (1/2) (1/4)]\<rparr>"
proof -
  have h: "history example_session = [evaluation_record 1 (1/2) (3/4), evaluation_record 0 (1/2) (1/4)]"
    by (simp add: example_session_def)
  have n: "length (history example_session) = 2" by (simp add: h)
  show ?thesis
    unfolding summary_value n example_sums
    by (simp add: bind_err_def example_quotients h)
qed

text \<open>
  C8. The response list of the summary is the full history: whatever summary
  \<open>summary\<close> returns, its response list is the session's history as it is, the same
  records in the same order, beside the aggregates.
\<close>

theorem summary_responses_full_history:
  "snd (summary rt s) = Inr r \<Longrightarrow> responses r = history s"
proof (cases "history s = []")
  case True
  assume "snd (summary rt s) = Inr r"
  with True show ?thesis by (auto simp: summary_value)
next
  case False
  assume "snd (summary rt s) = Inr r"
  with False show ?thesis
    unfolding summary_value
    by (auto dest!: bind_err_Inr)
qed

text \<open>The theorem at the example session, whose summary carries its two records.\<close>

theorem summary_responses_full_history_witness:
  "snd (summary example_runtime example_session) =
     Inr \<lparr>final_score = Finite (1/2), average_accuracy = Finite (1/2),
          average_explanation = Finite (1/2),
          responses = [evaluation_record 1 (1/2) (3/4), evaluation_record 0 (1/2) (1/4)]\<rparr> \<and>
   responses \<lparr>final_score = Finite (1/2), average_accuracy = Finite (1/2),
          average_explanation = Finite (1/2),
          responses = [evaluation_record 1 (1/2) (3/4), evaluation_record 0 (1/2) (1/4)]\<rparr>
     = history example_session"
  using summary_responses_full_history [OF example_summary] example_summary by simp

subsection \<open>Creation\<close>

lemma question_bounds: "MIN_QUESTIONS = 5" "MAX_QUESTIONS = 15"
  by (simp_all add: MIN_QUESTIONS_def MAX_QUESTIONS_def)

text \<open>
  C4. The constructor accepts exactly the integers from \<open>MIN_QUESTIONS\<close> to
  \<open>MAX_QUESTIONS\<close>: inside the range it returns a session that stores the value,
  outside it raises \<open>ValueError\<close> (the specification's \<open>InvalidConfiguration\<close>)
  and no session exists.
\<close>

theorem create_session_bounds:
  "(MIN_QUESTIONS \<le> mq \<and> mq \<le> MAX_QUESTIONS \<longrightarrow>
      (\<exists>s. SessionState_init mq t1 t2 = Inr s \<and> max_questions s = mq)) \<and>
   (mq < MIN_QUESTIONS \<or> MAX_QUESTIONS < mq \<longrightarrow> SessionState_init mq t1 t2 = Inl ValueError)"
  by (auto simp: SessionState_init_def reset_def new_object_def)

text \<open>
  The theorem at both bounds, 5 and 15, and just outside them, at 4 and 16.
\<close>

theorem create_session_bounds_witness:
  "map_sum id max_questions (SessionState_init 5 1 2) = Inr 5 \<and>
   map_sum id max_questions (SessionState_init 15 1 2) = Inr 15 \<and>
   SessionState_init 4 1 2 = Inl ValueError \<and>
   SessionState_init 16 1 2 = Inl ValueError"
  using create_session_bounds [of 5 1 2] create_session_bounds [of 15 1 2]
    create_session_bounds [of 4 1 2] create_session_bounds [of 16 1 2]
  by (auto simp: question_bounds)

text \<open>
  C7. A session as the constructor returns it has \<open>bloom_level\<close>,
  \<open>difficulty\<close> and \<open>question_number\<close> 1, is not finished, and has an empty
  history, no current question and no last misconception.
\<close>

theorem fresh_session_defaults:
  assumes "SessionState_init mq t1 t2 = Inr s"
  shows "bloom_level s = 1 \<and> difficulty s = 1 \<and> question_number s = 1 \<and> finished s = False \<and>
         history s = [] \<and> current_question s = PNone \<and> last_misconception s = PNone"
  using assms by (auto simp: SessionState_init_def reset_def split: if_splits)

theorem fresh_session_defaults_witness:
  "SessionState_init 15 1 2 = Inr (reset (new_object 15) 1 2) \<and>
   bloom_level (reset (new_object 15) 1 2) = 1 \<and>
   difficulty (reset (new_object 15) 1 2) = 1 \<and>
   question_number (reset (new_object 15) 1 2) = 1 \<and>
   finished (reset (new_object 15) 1 2) = False \<and>
   history (reset (new_object 15) 1 2) = [] \<and>
   current_question (reset (new_object 15) 1 2) = PNone \<and>
   last_misconception (reset (new_object 15) 1 2) = PNone"
proof -
  have c: "SessionState_init 15 1 2 = Inr (reset (new_object 15) 1 2)"
    by (simp add: SessionState_init_def question_bounds)
  show ?thesis using fresh_session_defaults [OF c] c by simp
qed

subsection \<open>The history\<close>

text \<open>
  The history is not append-only under every operation of the class: \<open>reset\<close>, the
  method that returns a session to its initial state, empties it. On a session with two
  records the history before \<open>reset\<close> is not a prefix of the history after it.
\<close>

theorem reset_truncates_history:
  "history example_session = [evaluation_record 1 (1/2) (3/4), evaluation_record 0 (1/2) (1/4)] \<and>
   history (reset example_session 300 300) = [] \<and>
   \<not> prefix (history example_session) (history (reset example_session 300 300))"
  by (simp add: example_session_def reset_def)

text \<open>
  C6, as the code has it. \<open>record_evaluation\<close> yields the previous history with
  the one new record appended at its end, so the previous history is a prefix of the new
  one; \<open>summary\<close> keeps the history as it is; \<open>reset\<close> empties it.
\<close>

theorem history_append_only:
  "history (record_evaluation s e now) = history s @ [e] \<and>
   prefix (history s) (history (record_evaluation s e now)) \<and>
   history (fst (summary rt s)) = history s \<and>
   history (reset s t1 t2) = []"
  by (simp add: record_evaluation_def summary_def reset_def)

section \<open>Properties of the handlers\<close>

subsection \<open>Submitting an answer\<close>

lemma answer_finished:
  assumes "SESSIONS (session_id request) = Some s" and "finished s"
  shows "answer rt score_response next_question now request SESSIONS =
    (SESSIONS(session_id request \<mapsto> s\<lparr>last_activity := now\<rparr>),
     Inl (HTTPException 400 (Detail ''Assessment already completed'')))"
  using assms by (simp add: answer_def answer_try_def)

lemma answer_no_question:
  assumes "SESSIONS (session_id request) = Some s" and "\<not> finished s"
    and "\<not> truthy (current_question s)"
  shows "answer rt score_response next_question now request SESSIONS =
    (SESSIONS(session_id request \<mapsto> s\<lparr>last_activity := now\<rparr>),
     Inl (HTTPException 400 (Detail ''No active question'')))"
  using assms by (simp add: answer_def answer_try_def)



text \<open>
  C5. An answer submitted to a registered session that is finished fails with the 400
  error \<open>Assessment already completed\<close>; submitted to an unfinished session with no
  pending question it fails with the 400 error \<open>No active question\<close> (both are the
  specification's \<open>InvalidSessionState\<close>). In both cases the history of the session
  in the registry is the history it had before the call.
\<close>

theorem answer_invalid_session_state:
  assumes "SESSIONS (session_id request) = Some s"
  shows
    "(finished s \<longrightarrow>
        snd (answer rt score_response next_question now request SESSIONS) =
          Inl (HTTPException 400 (Detail ''Assessment already completed'')) \<and>
        map_option history (fst (answer rt score_response next_question now request SESSIONS)
          (session_id request)) = Some (history s)) \<and>
     (\<not> finished s \<and> \<not> truthy (current_question s) \<longrightarrow>
        snd (answer rt score_response next_question now request SESSIONS) =
          Inl (HTTPException 400 (Detail ''No active question'')) \<and>
        map_option history (fst (answer rt score_response next_question now request SESSIONS)
          (session_id request)) = Some (history s))"
  using assms
    answer_finished [where SESSIONS = SESSIONS and request = request and s = s]
    answer_no_question [where SESSIONS = SESSIONS and request = request and s = s]
  by simp

theorem answer_invalid_session_state_witness:
  "registry_of finished_session (session_id example_request) = Some finished_session \<and>
   finished finished_session \<and>
   snd (answer example_runtime judge_down first_question 300 example_request
     (registry_of finished_session)) =
     Inl (HTTPException 400 (Detail ''Assessment already completed'')) \<and>
   map_option history (fst (answer example_runtime judge_down first_question 300 example_request
     (registry_of finished_session)) (session_id example_request)) = Some (history finished_session) \<and>
   registry_of idle_session (session_id example_request) = Some idle_session \<and>
   \<not> finished idle_session \<and> \<not> truthy (current_question idle_session) \<and>
   snd (answer example_runtime judge_down first_question 300 example_request
     (registry_of idle_session)) =
     Inl (HTTPException 400 (Detail ''No active question'')) \<and>
   map_option history (fst (answer example_runtime judge_down first_question 300 example_request
     (registry_of idle_session)) (session_id example_request)) = Some (history idle_session)"
proof -
  have f: "registry_of finished_session (session_id example_request) = Some finished_session"
    and i: "registry_of idle_session (session_id example_request) = Some idle_session"
    by (simp_all add: registry_of_def)
  have p: "finished finished_session" "\<not> finished idle_session"
    "\<not> truthy (current_question idle_session)"
    by (simp_all add: finished_session_def idle_session_def example_session_def)
  show ?thesis
    using
      answer_invalid_session_state [where SESSIONS = "registry_of finished_session"
        and request = example_request and s = finished_session and rt = example_runtime
        and score_response = judge_down and next_question = first_question and now = 300]
      answer_invalid_session_state [where SESSIONS = "registry_of idle_session"
        and request = example_request and s = idle_session and rt = example_runtime
        and score_response = judge_down and next_question = first_question and now = 300]
      f i p
    by simp
qed




subsection \<open>Starting a session\<close>

lemma default_session:
  "SessionState_init MAX_QUESTIONS t1 t2 = Inr (reset (new_object MAX_QUESTIONS) t1 t2)"
  by (simp add: SessionState_init_def question_bounds)

lemma start_registers:
  "fst (start next_question new_id t1 t2 SESSIONS) =
     SESSIONS(new_id \<mapsto> fst (next_question (reset (new_object MAX_QUESTIONS) t1 t2)))"
  by (simp add: start_def start_try_def default_session split: prod.splits sum.splits)

text \<open>
  C9. \<open>start\<close> has no argument for the number of questions. The session it
  constructs is the constructor's default one, with \<open>max_questions\<close> 15, and it is
  the session registered under the new id, as \<open>next_question\<close> left it; with a
  \<open>next_question\<close> that does not assign \<open>max_questions\<close>, the registered
  session has \<open>max_questions\<close> 15 whatever the handler returns.
\<close>

theorem start_default_max_questions:
  "(\<exists>s0. SessionState_init MAX_QUESTIONS t1 t2 = Inr s0 \<and> max_questions s0 = 15 \<and>
      fst (start next_question new_id t1 t2 SESSIONS) = SESSIONS(new_id \<mapsto> fst (next_question s0))) \<and>
   ((\<forall>s. max_questions (fst (next_question s)) = max_questions s) \<longrightarrow>
      map_option max_questions (fst (start next_question new_id t1 t2 SESSIONS) new_id) = Some 15)"
proof -
  let ?s0 = "reset (new_object MAX_QUESTIONS) t1 t2"
  have c: "SessionState_init MAX_QUESTIONS t1 t2 = Inr ?s0" by (rule default_session)
  have m: "max_questions ?s0 = 15" by (simp add: reset_def new_object_def question_bounds)
  have r: "fst (start next_question new_id t1 t2 SESSIONS) = SESSIONS(new_id \<mapsto> fst (next_question ?s0))"
    by (rule start_registers)
  from c m r show ?thesis by simp
qed

theorem start_default_max_questions_witness:
  "SessionState_init MAX_QUESTIONS 1 2 = Inr (reset (new_object 15) 1 2) \<and>
   max_questions (reset (new_object 15) 1 2) = 15 \<and>
   fst (start first_question (session_id example_request) 1 2 Map.empty) =
     Map.empty(session_id example_request \<mapsto> fst (first_question (reset (new_object 15) 1 2))) \<and>
   max_questions (fst (first_question (reset (new_object 15) 1 2))) =
     max_questions (reset (new_object 15) 1 2) \<and>
   map_option max_questions
     (fst (start first_question (session_id example_request) 1 2 Map.empty)
        (session_id example_request)) = Some 15"
proof -
  have fr: "\<forall>s. max_questions (fst (first_question s)) = max_questions s"
    by (simp add: first_question_def)
  show ?thesis
    using start_default_max_questions [of 1 2 first_question "session_id example_request" Map.empty]
      fr default_session [of 1 2]
    by (simp add: question_bounds)
qed

end
